theory Spec2Isabelle
  imports Complex_Main "HOL-Library.AList"
begin

section \<open>The Focus Ruler content script (content-scripts/focus-ruler.js)\<close>

text \<open>
  The script is one closure over seven module variables. It talks to the page through
  the DOM (one shadow host holding one overlay element whose CSS custom properties are the
  only rendering interface), through two window listeners, through
  \<^verbatim>\<open>requestAnimationFrame\<close> and through the extension message channel.
  JavaScript runs every handler to completion, so the model is a state record and one
  function per source function; the browser's side is the small part of the record the
  script can observe or change.
\<close>

subsection \<open>JavaScript values\<close>

text \<open>
  Numbers are modelled as reals: the only arithmetic of the script is one halving of the
  viewport height, and every other number is passed through unchanged.
\<close>

datatype jsval = Undefined | Null | Bool bool | Num real | Str string

text \<open>JavaScript truthiness, as used by \<^verbatim>\<open>if (s.focusRulerEnabled)\<close>.\<close>

fun truthy :: "jsval \<Rightarrow> bool" where
  "truthy Undefined = False"
| "truthy Null = False"
| "truthy (Bool b) = b"
| "truthy (Num x) = (x \<noteq> 0)"
| "truthy (Str s) = (s \<noteq> [])"

text \<open>\<^verbatim>\<open>a ?? d\<close>: the default replaces null and undefined.\<close>

fun nullish_or :: "jsval \<Rightarrow> jsval \<Rightarrow> jsval" where
  "nullish_or Undefined d = d"
| "nullish_or Null d = d"
| "nullish_or v d = v"

text \<open>A destructuring default \<^verbatim>\<open>{ height = d }\<close>: the default replaces undefined only.\<close>

fun default_to :: "jsval \<Rightarrow> jsval \<Rightarrow> jsval" where
  "default_to Undefined d = d"
| "default_to v d = v"

text \<open>The settings object \<^verbatim>\<open>{ height, opacity }\<close>; an absent property reads as undefined.\<close>

record settings =
  height :: jsval
  opacity :: jsval

definition no_settings :: settings where
  "no_settings = \<lparr>height = Undefined, opacity = Undefined\<rparr>"

text \<open>
  The two template literals that build property values: \<^verbatim>\<open>`${v}px`\<close> and
  \<^verbatim>\<open>`${v}`\<close>.
\<close>

datatype cssval = Px jsval | Plain jsval

text \<open>
  The overlay element. \<open>style\<close> is its inline style declaration (property name to value);
  \<open>setProperty_calls\<close> records every \<^verbatim>\<open>style.setProperty\<close> call made on the
  element, oldest first, which is what the compositor gets to see.
\<close>

record element =
  style :: "(string \<times> cssval) list"
  setProperty_calls :: "(string \<times> cssval) list"

text \<open>The object read from storage, which is also the snapshot sent after navigation.\<close>

record stored =
  focusRulerEnabled :: jsval
  rulerHeight :: jsval
  dimOpacity :: jsval

subsection \<open>Module state and the browser around it\<close>

record world =
  \<comment> \<open>module variables\<close>
  DEFAULT_Y :: real
  shadowHost :: bool
  shadowRoot :: bool
  overlay :: "element option"
  isEnabled :: bool
  rafId :: "nat option"
  pendingY :: "real option"
  currentY :: real
  \<comment> \<open>the browser\<close>
  innerWidth :: real
  innerHeight :: real
  has_root :: bool
  host_in_document :: bool
  mousemove_attached :: bool
  resize_attached :: bool
  raf_callbacks :: "nat list"
  raf_next :: nat
  message_listener :: bool
  console :: "string list"

definition DEFAULT_HEIGHT :: jsval where
  "DEFAULT_HEIGHT = Num 40"

definition DEFAULT_OPACITY :: jsval where
  "DEFAULT_OPACITY = Num 0.75"

text \<open>
  \<open>has_root\<close> says that \<^verbatim>\<open>document.body || document.documentElement\<close> is an
  element: the document has something to append the shadow host to. It is a property of
  the page and no function of the script changes it.

  The state right after the top of the closure has run in a window of the given size,
  showing a document with a body:
  \<^verbatim>\<open>DEFAULT_Y = window.innerHeight / 2\<close> is computed once, here.
\<close>

definition initial_world :: "real \<Rightarrow> real \<Rightarrow> world" where
  "initial_world vw vh =
     \<lparr>DEFAULT_Y = vh / 2, shadowHost = False, shadowRoot = False, overlay = None,
      isEnabled = False, rafId = None, pendingY = None, currentY = vh / 2,
      innerWidth = vw, innerHeight = vh, has_root = True, host_in_document = False,
      mousemove_attached = False, resize_attached = False,
      raf_callbacks = [], raf_next = 1, message_listener = False, console = []\<rparr>"

text \<open>The same in a document that has neither body nor root element.\<close>

definition rootless_world :: "real \<Rightarrow> real \<Rightarrow> world" where
  "rootless_world vw vh = (initial_world vw vh)\<lparr>has_root := False\<rparr>"

definition console_debug :: "string \<Rightarrow> world \<Rightarrow> world" where
  "console_debug msg w = w\<lparr>console := console w @ [msg]\<rparr>"

text \<open>
  \<^verbatim>\<open>requestAnimationFrame(loop)\<close> registers the callback under a fresh handle and
  returns the handle; \<^verbatim>\<open>cancelAnimationFrame\<close> removes it. Every callback this script
  registers is \<open>loop\<close>, so the pending callbacks are the list of their handles.
\<close>

definition requestAnimationFrame :: "world \<Rightarrow> nat \<times> world" where
  "requestAnimationFrame w =
     (raf_next w, w\<lparr>raf_callbacks := raf_callbacks w @ [raf_next w], raf_next := Suc (raf_next w)\<rparr>)"

definition cancelAnimationFrame :: "nat \<Rightarrow> world \<Rightarrow> world" where
  "cancelAnimationFrame h w = w\<lparr>raf_callbacks := removeAll h (raf_callbacks w)\<rparr>"

subsection \<open>CSS variables\<close>

text \<open>
  \<^verbatim>\<open>overlay?.style.setProperty(name, value)\<close>: nothing happens without an overlay.
  Values are kept as the template literals build them; the one value that would remove
  a declaration instead of setting it, the empty string, arises only from an opacity that
  is an empty string.
\<close>

definition setVar :: "string \<Rightarrow> cssval \<Rightarrow> world \<Rightarrow> world" where
  "setVar name v w =
     (case overlay w of
        None \<Rightarrow> w
      | Some el \<Rightarrow>
          w\<lparr>overlay := Some (el\<lparr>style := AList.update name v (style el),
                                 setProperty_calls := setProperty_calls el @ [(name, v)]\<rparr>)\<rparr>)"

definition applySettings :: "settings \<Rightarrow> world \<Rightarrow> world" where
  "applySettings st w =
     (let w1 = (if height st \<noteq> Undefined then setVar ''--ruler-height'' (Px (height st)) w else w)
      in if opacity st \<noteq> Undefined then setVar ''--dim-opacity'' (Plain (opacity st)) w1 else w1)"

text \<open>What the surface currently shows for a property; \<open>None\<close> without a surface.\<close>

definition surface_var :: "string \<Rightarrow> world \<Rightarrow> cssval option" where
  "surface_var name w = (case overlay w of None \<Rightarrow> None | Some el \<Rightarrow> map_of (style el) name)"

definition surface_calls :: "world \<Rightarrow> (string \<times> cssval) list" where
  "surface_calls w = (case overlay w of None \<Rightarrow> [] | Some el \<Rightarrow> setProperty_calls el)"

subsection \<open>Shadow DOM and overlay\<close>

text \<open>
  \<open>createOverlay\<close> can throw: its last statement calls \<^verbatim>\<open>appendChild\<close> on
  \<^verbatim>\<open>document.body || document.documentElement\<close>, a \<^verbatim>\<open>TypeError\<close> when both
  are null. Everything before it has happened by then, so the result is the error, if any,
  together with the state at that point.
\<close>

definition createOverlay :: "settings \<Rightarrow> world \<Rightarrow> string option \<times> world" where
  "createOverlay st w =
     (let h = default_to (height st) DEFAULT_HEIGHT;
          opac = default_to (opacity st) DEFAULT_OPACITY;
          w1 = w\<lparr>host_in_document := False\<rparr>;
          w2 = w1\<lparr>shadowHost := True, shadowRoot := True,
                  overlay := Some \<lparr>style = [], setProperty_calls = []\<rparr>\<rparr>;
          w3 = setVar ''--ruler-y'' (Px (Num (currentY w2))) w2;
          w4 = setVar ''--ruler-height'' (Px h) w3;
          w5 = setVar ''--dim-opacity'' (Plain opac) w4;
          w6 = setVar ''--vw'' (Px (Num (innerWidth w5))) w5;
          w7 = setVar ''--vh'' (Px (Num (innerHeight w6))) w6
      in if has_root w7 then (None, w7\<lparr>host_in_document := True\<rparr>)
         else (Some ''Cannot read properties of null (reading appendChild)'', w7))"

definition destroyOverlay :: "world \<Rightarrow> world" where
  "destroyOverlay w =
     (let w1 = (if shadowHost w then w\<lparr>host_in_document := False\<rparr> else w)
      in w1\<lparr>shadowHost := False, shadowRoot := False, overlay := None\<rparr>)"

subsection \<open>The frame loop\<close>

definition loop :: "world \<Rightarrow> world" where
  "loop w =
     (if \<not> isEnabled w then w
      else
        let w1 = (case pendingY w of
                    None \<Rightarrow> w
                  | Some y \<Rightarrow> setVar ''--ruler-y'' (Px (Num y)) (w\<lparr>currentY := y, pendingY := None\<rparr>));
            (h, w2) = requestAnimationFrame w1
        in w2\<lparr>rafId := Some h\<rparr>)"

definition startRaf :: "world \<Rightarrow> world" where
  "startRaf w = (let (h, w1) = requestAnimationFrame w in w1\<lparr>rafId := Some h\<rparr>)"

definition stopRaf :: "world \<Rightarrow> world" where
  "stopRaf w = (case rafId w of None \<Rightarrow> w | Some h \<Rightarrow> (cancelAnimationFrame h w)\<lparr>rafId := None\<rparr>)"

subsection \<open>Enable and disable\<close>

text \<open>
  The function \<^verbatim>\<open>enable\<close> of the script is \<open>enable_call\<close>: the error it throws, if
  any, and the state it leaves. An error of \<open>createOverlay\<close> leaves \<open>enable\<close> at once,
  after \<open>isEnabled\<close> has been set and before the listeners and the frame loop are set up.
  \<open>enable\<close> is the state alone.
\<close>

definition enable_call :: "settings \<Rightarrow> world \<Rightarrow> string option \<times> world" where
  "enable_call st w =
     (if isEnabled w then (None, applySettings st w)
      else
        let w1 = w\<lparr>isEnabled := True\<rparr>
        in case createOverlay st w1 of
             (Some err, w2) \<Rightarrow> (Some err, w2)
           | (None, w2) \<Rightarrow>
               let w3 = w2\<lparr>mousemove_attached := True\<rparr>;
                   w4 = w3\<lparr>resize_attached := True\<rparr>;
                   w5 = startRaf w4
               in (None, console_debug ''[AccessiLens] Focus Ruler enabled.'' w5))"

definition enable :: "settings \<Rightarrow> world \<Rightarrow> world" where
  "enable st w = snd (enable_call st w)"

definition disable :: "world \<Rightarrow> world" where
  "disable w =
     (if \<not> isEnabled w then w
      else
        let w1 = w\<lparr>isEnabled := False\<rparr>;
            w2 = stopRaf w1;
            w3 = w2\<lparr>mousemove_attached := False\<rparr>;
            w4 = w3\<lparr>resize_attached := False\<rparr>;
            w5 = destroyOverlay w4
        in console_debug ''[AccessiLens] Focus Ruler disabled.'' w5)"

subsection \<open>Event handlers\<close>

definition onMouseMove :: "real \<Rightarrow> world \<Rightarrow> world" where
  "onMouseMove clientY w = w\<lparr>pendingY := Some clientY\<rparr>"

definition onResize :: "world \<Rightarrow> world" where
  "onResize w =
     (let w1 = setVar ''--vw'' (Px (Num (innerWidth w))) w
      in setVar ''--vh'' (Px (Num (innerHeight w1))) w1)"

subsection \<open>The message listener\<close>

text \<open>
  The four message shapes the listener acts on, and every other type. \<open>settings option\<close>
  and \<open>stored option\<close> are \<open>None\<close> when the message carries no such property.
\<close>

datatype message =
    FOCUS_RULER_TOGGLE jsval "settings option"
  | FOCUS_RULER_UPDATE_SETTINGS "settings option"
  | FOCUS_RULER_GET_STATE
  | REAPPLY_STATE "stored option"
  | Other_message string

datatype response =
    Toggle_response jsval
  | Ok_response
  | State_response bool real

definition registerMessageListener :: "world \<Rightarrow> world" where
  "registerMessageListener w = w\<lparr>message_listener := True\<rparr>"

text \<open>
  The listener's body; the first component is the argument of \<^verbatim>\<open>sendResponse\<close>.
  When \<open>enable\<close> throws, the error leaves the listener before \<^verbatim>\<open>sendResponse\<close> is
  reached: no response is sent and the state is the one \<open>enable\<close> left.
\<close>

fun onMessage :: "message \<Rightarrow> world \<Rightarrow> response option \<times> world" where
  "onMessage (FOCUS_RULER_TOGGLE enabled sett) w =
     (if truthy enabled
      then (case enable_call
                   \<lparr>height = (case sett of None \<Rightarrow> Undefined | Some s \<Rightarrow> height s),
                    opacity = (case sett of None \<Rightarrow> Undefined | Some s \<Rightarrow> opacity s)\<rparr> w of
              (Some err, w1) \<Rightarrow> (None, w1)
            | (None, w1) \<Rightarrow> (Some (Toggle_response enabled), w1))
      else (Some (Toggle_response enabled), disable w))"
| "onMessage (FOCUS_RULER_UPDATE_SETTINGS sett) w =
     (Some Ok_response,
      applySettings (case sett of None \<Rightarrow> no_settings | Some s \<Rightarrow> s) w)"
| "onMessage FOCUS_RULER_GET_STATE w =
     (Some (State_response (isEnabled w) (currentY w)), w)"
| "onMessage (REAPPLY_STATE snapshot) w =
     (let s = (case snapshot of
                 None \<Rightarrow> \<lparr>focusRulerEnabled = Undefined, rulerHeight = Undefined,
                          dimOpacity = Undefined\<rparr>
               | Some s' \<Rightarrow> s')
      in if truthy (focusRulerEnabled s)
         then (case enable_call \<lparr>height = rulerHeight s, opacity = dimOpacity s\<rparr> w of
                 (Some err, w1) \<Rightarrow> (None, w1)
               | (None, w1) \<Rightarrow> (Some Ok_response, w1))
         else (Some Ok_response, disable w))"
| "onMessage (Other_message t) w = (None, w)"

subsection \<open>Bootstrap\<close>

text \<open>
  \<^verbatim>\<open>chrome.storage.local.get\<close> either resolves with the stored object or rejects with
  an error carrying a message (on a page where extension storage is not accessible).
\<close>

datatype storage_result = Rejected string | Resolved stored

text \<open>
  The body of the \<^verbatim>\<open>try\<close> block: the message of the error thrown out of it, if
  any (a rejected read, or an error of \<open>enable\<close>), and the state at that point.
\<close>

definition init_try :: "storage_result \<Rightarrow> world \<Rightarrow> string option \<times> world" where
  "init_try r w =
     (case r of
        Rejected msg \<Rightarrow> (Some msg, w)
      | Resolved result \<Rightarrow>
          (if focusRulerEnabled result = Bool True
           then enable_call \<lparr>height = nullish_or (rulerHeight result) DEFAULT_HEIGHT,
                             opacity = nullish_or (dimOpacity result) DEFAULT_OPACITY\<rparr> w
           else (None, w)))"

text \<open>\<open>init\<close> with its \<^verbatim>\<open>catch\<close>: \<open>Inl\<close> would be an error leaving \<open>init\<close>.\<close>

definition init :: "storage_result \<Rightarrow> world \<Rightarrow> string + world" where
  "init r w =
     (case init_try r w of
        (Some msg, w1) \<Rightarrow>
          Inr (registerMessageListener
                 (console_debug (''[AccessiLens] focus-ruler storage read failed: '' @ msg) w1))
      | (None, w1) \<Rightarrow> Inr (registerMessageListener w1))"

subsection \<open>The browser's event loop\<close>

text \<open>
  One animation frame: the browser takes the handles pending at the start of the frame and
  invokes each callback that has not been cancelled in the meantime, removing it first;
  callbacks registered during the frame wait for the next one.
\<close>

fun run_callbacks :: "nat list \<Rightarrow> world \<Rightarrow> world" where
  "run_callbacks [] w = w"
| "run_callbacks (h # hs) w =
     (if h \<in> set (raf_callbacks w)
      then run_callbacks hs (loop (w\<lparr>raf_callbacks := removeAll h (raf_callbacks w)\<rparr>))
      else run_callbacks hs w)"

definition animation_frame :: "world \<Rightarrow> world" where
  "animation_frame w = run_callbacks (raf_callbacks w) w"

text \<open>
  What the page can do to the script: move the pointer, resize the window, paint a frame,
  deliver a message. A listener runs only while it is registered.
\<close>

datatype event =
    MouseMove real
  | Resize real real
  | AnimationFrame
  | Message message

fun step :: "event \<Rightarrow> world \<Rightarrow> world" where
  "step (MouseMove y) w = (if mousemove_attached w then onMouseMove y w else w)"
| "step (Resize vw vh) w =
     (let w1 = w\<lparr>innerWidth := vw, innerHeight := vh\<rparr>
      in if resize_attached w1 then onResize w1 else w1)"
| "step AnimationFrame w = animation_frame w"
| "step (Message m) w = (if message_listener w then snd (onMessage m w) else w)"

fun run :: "event list \<Rightarrow> world \<Rightarrow> world" where
  "run [] w = w"
| "run (e # es) w = run es (step e w)"

text \<open>The page context after injection into a window of the given size and \<open>init\<close>.\<close>

definition boot :: "storage_result \<Rightarrow> real \<Rightarrow> real \<Rightarrow> world" where
  "boot r vw vh = (case init r (initial_world vw vh) of Inr w \<Rightarrow> w | Inl msg \<Rightarrow> initial_world vw vh)"

text \<open>The same for a document that has neither body nor root element.\<close>

definition boot_rootless :: "storage_result \<Rightarrow> real \<Rightarrow> real \<Rightarrow> world" where
  "boot_rootless r vw vh =
     (case init r (rootless_world vw vh) of Inr w \<Rightarrow> w | Inl msg \<Rightarrow> rootless_world vw vh)"

subsection \<open>The lifecycle invariant\<close>

text \<open>
  Surface, listeners and frame loop exist together, exactly while \<open>isEnabled\<close>: the
  pending frame callbacks are the one whose handle \<open>rafId\<close> holds, and \<open>rafId\<close> holds one
  exactly while enabled. Handles already given out are below the next one, and the host
  is in the document only if the document has a body or root to hold it.
\<close>

definition ruler_inv :: "world \<Rightarrow> bool" where
  "ruler_inv w =
     ((overlay w \<noteq> None) = isEnabled w \<and>
      shadowHost w = isEnabled w \<and>
      shadowRoot w = isEnabled w \<and>
      host_in_document w = isEnabled w \<and>
      mousemove_attached w = isEnabled w \<and>
      resize_attached w = isEnabled w \<and>
      (rafId w \<noteq> None) = isEnabled w \<and>
      raf_callbacks w = (case rafId w of None \<Rightarrow> [] | Some h \<Rightarrow> [h]) \<and>
      list_all (\<lambda>h. h < raf_next w) (raf_callbacks w) \<and>
      (has_root w \<or> \<not> host_in_document w))"

text \<open>
  The part of it that concerns the frame loop alone: the pending callbacks are the one
  \<open>rafId\<close> names, and \<open>rafId\<close> names one only while enabled.
\<close>

definition frame_inv :: "world \<Rightarrow> bool" where
  "frame_inv w =
     ((isEnabled w \<or> rafId w = None) \<and>
      raf_callbacks w = (case rafId w of None \<Rightarrow> [] | Some h \<Rightarrow> [h]))"

subsection \<open>Notions used by the properties\<close>

text \<open>
  The overlay element as \<open>createOverlay\<close> leaves it: five properties, set once each, in
  this order (lemma \<open>createOverlay_eq\<close> below).
\<close>

definition fresh_overlay :: "settings \<Rightarrow> world \<Rightarrow> element" where
  "fresh_overlay st w =
     \<lparr>style = [(''--ruler-y'', Px (Num (currentY w))),
               (''--ruler-height'', Px (default_to (height st) DEFAULT_HEIGHT)),
               (''--dim-opacity'', Plain (default_to (opacity st) DEFAULT_OPACITY)),
               (''--vw'', Px (Num (innerWidth w))),
               (''--vh'', Px (Num (innerHeight w)))],
      setProperty_calls = [(''--ruler-y'', Px (Num (currentY w))),
               (''--ruler-height'', Px (default_to (height st) DEFAULT_HEIGHT)),
               (''--dim-opacity'', Plain (default_to (opacity st) DEFAULT_OPACITY)),
               (''--vw'', Px (Num (innerWidth w))),
               (''--vh'', Px (Num (innerHeight w)))]\<rparr>"

text \<open>Pointer samples and frames: the events the page produces with no command involved.\<close>

fun pointer_or_frame :: "event \<Rightarrow> bool" where
  "pointer_or_frame (MouseMove y) = True"
| "pointer_or_frame AnimationFrame = True"
| "pointer_or_frame (Resize vw vh) = False"
| "pointer_or_frame (Message m) = False"

text \<open>
  An event commits a pointer sample when it is a frame in which \<open>loop\<close> runs with the
  ruler enabled and a sample pending.
\<close>

definition commits :: "event \<Rightarrow> world \<Rightarrow> bool" where
  "commits e w = (e = AnimationFrame \<and> isEnabled w \<and> pendingY w \<noteq> None \<and> raf_callbacks w \<noteq> [])"

fun no_commit :: "event list \<Rightarrow> world \<Rightarrow> bool" where
  "no_commit [] w = True"
| "no_commit (e # es) w = (\<not> commits e w \<and> no_commit es (step e w))"


text \<open>
  Two page contexts used as concrete instances: a page of 1280 by 800 whose stored
  configuration has the ruler off, after \<open>init\<close>; and the same page after a toggle
  command has switched the ruler on with the default settings.
\<close>

definition stored_off :: stored where
  "stored_off = \<lparr>focusRulerEnabled = Bool False, rulerHeight = Num 40, dimOpacity = Num 0.75\<rparr>"

definition stored_on :: stored where
  "stored_on = \<lparr>focusRulerEnabled = Bool True, rulerHeight = Num 40, dimOpacity = Num 0.75\<rparr>"

definition page_off :: world where
  "page_off = boot (Resolved stored_off) 1280 800"

definition page_on :: world where
  "page_on =
     step (Message (FOCUS_RULER_TOGGLE (Bool True) (Some \<lparr>height = Num 40, opacity = Num 0.75\<rparr>)))
       page_off"


text \<open>
  A third one: a page of 1280 by 800 whose document has neither body nor root element and
  whose stored configuration has the ruler on, after \<open>init\<close>.
\<close>

definition page_rootless :: world where
  "page_rootless = boot_rootless (Resolved stored_on) 1280 800"

section \<open>Basic facts\<close>

lemma inv_initial: "ruler_inv (initial_world vw vh)"
  by (simp add: ruler_inv_def initial_world_def)

lemma setVar_None: "overlay w = None \<Longrightarrow> setVar n v w = w"
  by (simp add: setVar_def)

lemma setVar_Some:
  "overlay w = Some el \<Longrightarrow>
   setVar n v w = w\<lparr>overlay := Some (el\<lparr>style := AList.update n v (style el),
                                          setProperty_calls := setProperty_calls el @ [(n, v)]\<rparr>)\<rparr>"
  by (simp add: setVar_def)

lemma applySettings_None: "overlay w = None \<Longrightarrow> applySettings st w = w"
  by (simp add: applySettings_def setVar_None Let_def)

lemma inv_enabled_ex:
  "ruler_inv w \<Longrightarrow> isEnabled w \<Longrightarrow>
   \<exists>h el. rafId w = Some h \<and> raf_callbacks w = [h] \<and> h < raf_next w \<and> overlay w = Some el \<and>
     shadowHost w \<and> shadowRoot w \<and> host_in_document w \<and> mousemove_attached w \<and>
     resize_attached w"
  by (cases "rafId w"; cases "overlay w") (auto simp: ruler_inv_def)

lemma inv_enabledD:
  assumes "ruler_inv w" and "isEnabled w"
  obtains h el where "rafId w = Some h" and "raf_callbacks w = [h]" and "h < raf_next w"
    and "overlay w = Some el" and "shadowHost w" and "shadowRoot w" and "host_in_document w"
    and "mousemove_attached w" and "resize_attached w"
  using inv_enabled_ex [OF assms] by blast

lemma inv_disabledD:
  assumes "ruler_inv w" and "\<not> isEnabled w"
  shows "rafId w = None" and "raf_callbacks w = []" and "overlay w = None"
    and "\<not> shadowHost w" and "\<not> shadowRoot w" and "\<not> host_in_document w"
    and "\<not> mousemove_attached w" and "\<not> resize_attached w"
  using assms by (auto simp: ruler_inv_def)

lemma inv_overlay_update:
  "ruler_inv w \<Longrightarrow> overlay w \<noteq> None \<Longrightarrow> ruler_inv (w\<lparr>overlay := Some el'\<rparr>)"
  by (auto simp: ruler_inv_def)

lemma inv_setVar: "ruler_inv w \<Longrightarrow> ruler_inv (setVar n v w)"
  by (cases "overlay w") (simp_all add: setVar_None setVar_Some inv_overlay_update)

lemma inv_applySettings: "ruler_inv w \<Longrightarrow> ruler_inv (applySettings st w)"
  by (simp add: applySettings_def Let_def inv_setVar)

lemma createOverlay_eq:
  "createOverlay st w =
     (if has_root w then None else Some ''Cannot read properties of null (reading appendChild)'',
      w\<lparr>shadowHost := True, shadowRoot := True, overlay := Some (fresh_overlay st w),
        host_in_document := has_root w\<rparr>)"
  by (simp add: createOverlay_def setVar_def fresh_overlay_def Let_def)

text \<open>\<open>enable\<close> on a disabled ruler, written out: where it returns, and where it throws.\<close>

lemma enable_disabled:
  "\<not> isEnabled w \<Longrightarrow> has_root w \<Longrightarrow>
   enable st w =
     w\<lparr>isEnabled := True, shadowHost := True, shadowRoot := True,
       overlay := Some (fresh_overlay st w), host_in_document := True,
       mousemove_attached := True, resize_attached := True,
       raf_callbacks := raf_callbacks w @ [raf_next w], raf_next := Suc (raf_next w),
       rafId := Some (raf_next w),
       console := console w @ [''[AccessiLens] Focus Ruler enabled.'']\<rparr>"
  by (simp add: enable_def enable_call_def createOverlay_eq startRaf_def
        requestAnimationFrame_def console_debug_def Let_def fresh_overlay_def)

lemma enable_rootless:
  "\<not> isEnabled w \<Longrightarrow> \<not> has_root w \<Longrightarrow>
   enable st w =
     w\<lparr>isEnabled := True, shadowHost := True, shadowRoot := True,
       overlay := Some (fresh_overlay st w), host_in_document := False\<rparr>"
  by (simp add: enable_def enable_call_def createOverlay_eq fresh_overlay_def)

lemma enable_call_throws:
  "fst (enable_call st w) =
     (if isEnabled w \<or> has_root w then None
      else Some ''Cannot read properties of null (reading appendChild)'')"
  by (simp add: enable_call_def createOverlay_eq Let_def)

lemma enable_call_eq: "enable_call st w = (fst (enable_call st w), enable st w)"
  by (simp add: enable_def)

lemma enable_fresh:
  assumes "\<not> isEnabled w"
  shows "isEnabled (enable st w)" and "overlay (enable st w) = Some (fresh_overlay st w)"
    and "host_in_document (enable st w) = has_root w"
  using assms by (cases "has_root w"; simp add: enable_disabled enable_rootless)+

lemma enable_keeps:
  "currentY (enable st w) = currentY w" "pendingY (enable st w) = pendingY w"
  "has_root (enable st w) = has_root w" "message_listener (enable st w) = message_listener w"
  "innerWidth (enable st w) = innerWidth w" "innerHeight (enable st w) = innerHeight w"
  by (simp_all add: enable_def enable_call_def createOverlay_eq startRaf_def
        requestAnimationFrame_def console_debug_def applySettings_def setVar_def Let_def
        split: option.splits)

lemma enable_enabled: "isEnabled w \<Longrightarrow> enable st w = applySettings st w"
  by (simp add: enable_def enable_call_def)

lemma disable_disabled: "\<not> isEnabled w \<Longrightarrow> disable w = w"
  by (simp add: disable_def)

lemma disable_enabled:
  "ruler_inv w \<Longrightarrow> isEnabled w \<Longrightarrow>
   disable w =
     w\<lparr>isEnabled := False, rafId := None, raf_callbacks := [],
       mousemove_attached := False, resize_attached := False,
       host_in_document := False, shadowHost := False, shadowRoot := False, overlay := None,
       console := console w @ [''[AccessiLens] Focus Ruler disabled.'']\<rparr>"
proof -
  assume i: "ruler_inv w" and e: "isEnabled w"
  from i e obtain h where "rafId w = Some h" and "raf_callbacks w = [h]" and "shadowHost w"
    by (rule inv_enabledD)
  with e show ?thesis
    by (simp add: disable_def stopRaf_def cancelAnimationFrame_def destroyOverlay_def
          console_debug_def Let_def)
qed

lemma inv_enable: "ruler_inv w \<Longrightarrow> has_root w \<Longrightarrow> ruler_inv (enable st w)"
proof (cases "isEnabled w")
  case True
  assume "ruler_inv w"
  with True show ?thesis by (simp add: enable_enabled inv_applySettings)
next
  case False
  assume "ruler_inv w" and "has_root w"
  with False show ?thesis by (auto simp: enable_disabled ruler_inv_def)
qed

lemma inv_disable: "ruler_inv w \<Longrightarrow> ruler_inv (disable w)"
proof (cases "isEnabled w")
  case True
  assume "ruler_inv w"
  with True show ?thesis by (simp add: disable_enabled) (auto simp: ruler_inv_def)
next
  case False
  assume "ruler_inv w"
  with False show ?thesis by (simp add: disable_disabled)
qed

lemma snd_onMessage:
  "snd (onMessage (FOCUS_RULER_TOGGLE enabled sett) w) =
     (if truthy enabled
      then enable \<lparr>height = (case sett of None \<Rightarrow> Undefined | Some s \<Rightarrow> height s),
                   opacity = (case sett of None \<Rightarrow> Undefined | Some s \<Rightarrow> opacity s)\<rparr> w
      else disable w)"
  "snd (onMessage (FOCUS_RULER_UPDATE_SETTINGS sett) w) =
     applySettings (case sett of None \<Rightarrow> no_settings | Some s \<Rightarrow> s) w"
  "snd (onMessage FOCUS_RULER_GET_STATE w) = w"
  "snd (onMessage (REAPPLY_STATE (Some s)) w) =
     (if truthy (focusRulerEnabled s)
      then enable \<lparr>height = rulerHeight s, opacity = dimOpacity s\<rparr> w else disable w)"
  "snd (onMessage (REAPPLY_STATE None) w) = disable w"
  "snd (onMessage (Other_message t) w) = w"
  by (simp_all add: enable_def split: prod.splits option.splits)

lemma fst_onMessage_get_state:
  "fst (onMessage FOCUS_RULER_GET_STATE w) = Some (State_response (isEnabled w) (currentY w))"
  by simp

lemma fst_onMessage_toggle:
  "fst (onMessage (FOCUS_RULER_TOGGLE enabled sett) w) =
     (if truthy enabled \<and>
         fst (enable_call
                \<lparr>height = (case sett of None \<Rightarrow> Undefined | Some s \<Rightarrow> height s),
                 opacity = (case sett of None \<Rightarrow> Undefined | Some s \<Rightarrow> opacity s)\<rparr> w) \<noteq> None
      then None else Some (Toggle_response enabled))"
  by (simp split: prod.splits option.splits)

text \<open>From here on the listener is used through these equations.\<close>

declare onMessage.simps [simp del]

lemma inv_onMessage: "ruler_inv w \<Longrightarrow> has_root w \<Longrightarrow> ruler_inv (snd (onMessage m w))"
proof (cases m)
  case (REAPPLY_STATE snapshot)
  assume "ruler_inv w" and "has_root w"
  with REAPPLY_STATE show ?thesis
    by (cases snapshot) (simp_all add: snd_onMessage inv_enable inv_disable)
qed (simp_all add: snd_onMessage inv_enable inv_disable inv_applySettings)

text \<open>One frame in an enabled state: the single pending callback runs once.\<close>

lemma animation_frame_disabled:
  "ruler_inv w \<Longrightarrow> \<not> isEnabled w \<Longrightarrow> animation_frame w = w"
  by (simp add: ruler_inv_def animation_frame_def)

lemma animation_frame_enabled:
  "ruler_inv w \<Longrightarrow> isEnabled w \<Longrightarrow>
   animation_frame w =
     (case pendingY w of
        None \<Rightarrow> w
      | Some y \<Rightarrow> setVar ''--ruler-y'' (Px (Num y)) (w\<lparr>currentY := y, pendingY := None\<rparr>))
     \<lparr>raf_callbacks := [raf_next w], raf_next := Suc (raf_next w), rafId := Some (raf_next w)\<rparr>"
proof -
  assume i: "ruler_inv w" and e: "isEnabled w"
  from i e obtain h where "rafId w = Some h" and "raf_callbacks w = [h]"
    by (rule inv_enabledD)
  with e show ?thesis
    by (cases "pendingY w"; cases "overlay w")
       (simp_all add: animation_frame_def loop_def requestAnimationFrame_def setVar_def Let_def)
qed

lemma inv_animation_frame: "ruler_inv w \<Longrightarrow> ruler_inv (animation_frame w)"
proof (cases "isEnabled w")
  case True
  assume "ruler_inv w"
  with True show ?thesis
    by (cases "pendingY w"; cases "overlay w")
       (auto simp: animation_frame_enabled ruler_inv_def setVar_def)
next
  case False
  assume "ruler_inv w"
  with False show ?thesis by (simp add: animation_frame_disabled)
qed

lemma inv_viewport: "ruler_inv w \<Longrightarrow> ruler_inv (w\<lparr>innerWidth := a, innerHeight := b\<rparr>)"
  by (auto simp: ruler_inv_def)

lemma inv_onMouseMove: "ruler_inv w \<Longrightarrow> ruler_inv (onMouseMove y w)"
  by (auto simp: ruler_inv_def onMouseMove_def)

lemma inv_onResize: "ruler_inv w \<Longrightarrow> ruler_inv (onResize w)"
  by (simp add: onResize_def Let_def inv_setVar)

lemma has_root_setVar: "has_root (setVar n v w) = has_root w"
  by (simp add: setVar_def split: option.splits)

lemma has_root_applySettings: "has_root (applySettings st w) = has_root w"
  by (simp add: applySettings_def has_root_setVar Let_def)

lemma has_root_disable: "has_root (disable w) = has_root w"
  by (simp add: disable_def stopRaf_def cancelAnimationFrame_def destroyOverlay_def
        console_debug_def Let_def split: option.splits)

lemma has_root_onMessage: "has_root (snd (onMessage m w)) = has_root w"
proof (cases m)
  case (REAPPLY_STATE snapshot)
  then show ?thesis
    by (cases snapshot) (simp_all add: snd_onMessage enable_keeps has_root_disable)
qed (simp_all add: snd_onMessage enable_keeps has_root_disable has_root_applySettings)

lemma has_root_loop: "has_root (loop w) = has_root w"
  by (simp add: loop_def requestAnimationFrame_def has_root_setVar Let_def split: option.splits)

lemma has_root_run_callbacks: "has_root (run_callbacks hs w) = has_root w"
  by (induction hs arbitrary: w) (simp_all add: has_root_loop)

lemma has_root_step: "has_root (step e w) = has_root w"
  by (cases e)
     (simp_all add: has_root_onMessage animation_frame_def has_root_run_callbacks
        onMouseMove_def onResize_def has_root_setVar Let_def)

lemma has_root_run: "has_root (run es w) = has_root w"
  by (induction es arbitrary: w) (simp_all add: has_root_step)

lemma inv_step: "ruler_inv w \<Longrightarrow> has_root w \<Longrightarrow> ruler_inv (step e w)"
  by (cases e)
     (simp_all add: inv_onMessage inv_animation_frame inv_onMouseMove inv_onResize
        inv_viewport Let_def)

lemma inv_run: "ruler_inv w \<Longrightarrow> has_root w \<Longrightarrow> ruler_inv (run es w)"
  by (induction es arbitrary: w) (simp_all add: inv_step has_root_step)

lemma inv_registerMessageListener: "ruler_inv w \<Longrightarrow> ruler_inv (registerMessageListener w)"
  by (auto simp: ruler_inv_def registerMessageListener_def)

lemma inv_console_debug: "ruler_inv w \<Longrightarrow> ruler_inv (console_debug msg w)"
  by (auto simp: ruler_inv_def console_debug_def)

lemma has_root_register: "has_root (registerMessageListener w) = has_root w"
  by (simp add: registerMessageListener_def)

lemma has_root_console_debug: "has_root (console_debug m w) = has_root w"
  by (simp add: console_debug_def)

lemma init_returns: "\<exists>w'. init r w = Inr w'"
  by (simp add: init_def split: prod.splits option.splits)

lemma init_Rejected:
  "init (Rejected msg) w =
     Inr (w\<lparr>message_listener := True,
            console := console w @ [''[AccessiLens] focus-ruler storage read failed: '' @ msg]\<rparr>)"
  by (simp add: init_def init_try_def registerMessageListener_def console_debug_def)

text \<open>
  What \<open>init\<close> does to the state is a composition of \<open>enable\<close>, \<open>console_debug\<close> and
  \<open>registerMessageListener\<close>.
\<close>

lemma init_preserves:
  assumes "P w"
    and "\<And>v. P v \<Longrightarrow> P (registerMessageListener v)"
    and "\<And>v m. P v \<Longrightarrow> P (console_debug m v)"
    and "\<And>v st. P v \<Longrightarrow> P (enable st v)"
    and "init r w = Inr w'"
  shows "P w'"
proof (cases r)
  case (Rejected msg)
  with assms(5) have "w' = registerMessageListener
      (console_debug (''[AccessiLens] focus-ruler storage read failed: '' @ msg) w)"
    by (simp add: init_def init_try_def)
  with assms(1-3) show ?thesis by simp
next
  case (Resolved result)
  show ?thesis
  proof (cases "focusRulerEnabled result = Bool True")
    case False
    with Resolved assms(5) have "w' = registerMessageListener w"
      by (simp add: init_def init_try_def)
    with assms(1,2) show ?thesis by simp
  next
    case True
    let ?st = "\<lparr>height = nullish_or (rulerHeight result) DEFAULT_HEIGHT,
                opacity = nullish_or (dimOpacity result) DEFAULT_OPACITY\<rparr>"
    have p: "P (enable ?st w)" using assms(1) by (rule assms(4))
    show ?thesis
    proof (cases "fst (enable_call ?st w)")
      case None
      with True Resolved assms(5) have "w' = registerMessageListener (enable ?st w)"
        by (simp add: init_def init_try_def enable_def split: prod.splits)
      with p assms(2) show ?thesis by simp
    next
      case (Some msg)
      with True Resolved assms(5) have "w' = registerMessageListener
          (console_debug (''[AccessiLens] focus-ruler storage read failed: '' @ msg)
             (enable ?st w))"
        by (simp add: init_def init_try_def enable_def split: prod.splits)
      with p assms(2,3) show ?thesis by simp
    qed
  qed
qed

lemma inv_init:
  assumes "ruler_inv w" and "has_root w" and "init r w = Inr w'"
  shows "ruler_inv w'"
proof -
  have "ruler_inv w' \<and> has_root w'"
  proof (rule init_preserves [where P = "\<lambda>v. ruler_inv v \<and> has_root v", OF _ _ _ _ assms(3)])
    show "ruler_inv w \<and> has_root w" using assms(1,2) by simp
  qed (auto simp: inv_registerMessageListener inv_console_debug inv_enable enable_keeps
        has_root_register has_root_console_debug)
  then show ?thesis by simp
qed

lemma has_root_init: "init r w = Inr w' \<Longrightarrow> has_root w' = has_root w"
  by (rule init_preserves [where P = "\<lambda>v. has_root v = has_root w" and w = w and r = r])
     (simp_all add: enable_keeps registerMessageListener_def console_debug_def)

lemma has_root_boot: "has_root (boot r vw vh)"
  using has_root_init [of r "initial_world vw vh"] init_returns [of r "initial_world vw vh"]
  by (auto simp: boot_def initial_world_def)

lemma inv_boot: "ruler_inv (boot r vw vh)"
proof -
  have "has_root (initial_world vw vh)" by (simp add: initial_world_def)
  from inv_init [OF inv_initial this, of r] init_returns [of r "initial_world vw vh"]
  show ?thesis by (auto simp: boot_def)
qed

lemma isEnabled_disable: "\<not> isEnabled (disable w)"
  by (simp add: disable_def stopRaf_def cancelAnimationFrame_def destroyOverlay_def
        console_debug_def Let_def split: option.splits)

lemma disable_keeps:
  "currentY (disable w) = currentY w" "pendingY (disable w) = pendingY w"
  "message_listener (disable w) = message_listener w"
  by (simp_all add: disable_def stopRaf_def cancelAnimationFrame_def destroyOverlay_def
        console_debug_def Let_def split: option.splits)

lemma applySettings_overlay_only: "applySettings st w = w\<lparr>overlay := overlay (applySettings st w)\<rparr>"
  by (simp add: applySettings_def setVar_def Let_def split: option.splits)

lemma applySettings_fields:
  "raf_callbacks (applySettings st w) = raf_callbacks w"
  "rafId (applySettings st w) = rafId w"
  "raf_next (applySettings st w) = raf_next w"
  "currentY (applySettings st w) = currentY w"
  "pendingY (applySettings st w) = pendingY w"
  by (simp_all add: applySettings_def setVar_def Let_def split: option.splits)

lemma applySettings_calls:
  "overlay w \<noteq> None \<Longrightarrow>
   surface_calls (applySettings st w) =
     surface_calls w @
     (if height st \<noteq> Undefined then [(''--ruler-height'', Px (height st))] else []) @
     (if opacity st \<noteq> Undefined then [(''--dim-opacity'', Plain (opacity st))] else [])"
  by (auto simp: applySettings_def setVar_def surface_calls_def Let_def)

lemma applySettings_vars:
  "overlay w \<noteq> None \<Longrightarrow>
   surface_var ''--ruler-height'' (applySettings st w) =
     (if height st \<noteq> Undefined then Some (Px (height st)) else surface_var ''--ruler-height'' w)"
  "overlay w \<noteq> None \<Longrightarrow>
   surface_var ''--dim-opacity'' (applySettings st w) =
     (if opacity st \<noteq> Undefined then Some (Plain (opacity st)) else surface_var ''--dim-opacity'' w)"
  by (auto simp: applySettings_def setVar_def surface_var_def Let_def update_conv')

lemma surface_var_enable_fresh:
  assumes "\<not> isEnabled w"
  shows "surface_var ''--ruler-height'' (enable st w) = Some (Px (default_to (height st) DEFAULT_HEIGHT))"
    and "surface_var ''--dim-opacity'' (enable st w) = Some (Plain (default_to (opacity st) DEFAULT_OPACITY))"
    and "surface_var ''--ruler-y'' (enable st w) = Some (Px (Num (currentY w)))"
    and "surface_var ''--vh'' (enable st w) = Some (Px (Num (innerHeight w)))"
  using assms by (simp_all add: enable_fresh surface_var_def fresh_overlay_def)

lemma default_to_same: "v \<noteq> Undefined \<Longrightarrow> default_to v d = v"
  by (cases v) simp_all

lemma applySettings_fresh_style:
  "overlay w = Some (fresh_overlay st w0) \<Longrightarrow>
   map_option style (overlay (applySettings st w)) = Some (style (fresh_overlay st w0))"
  by (simp add: applySettings_def setVar_def fresh_overlay_def Let_def default_to_same)

lemma enable_twice_style:
  "\<not> isEnabled w \<Longrightarrow>
   map_option style (overlay (enable st (enable st w))) = map_option style (overlay (enable st w))"
proof -
  assume d: "\<not> isEnabled w"
  have e: "isEnabled (enable st w)" using d by (rule enable_fresh)
  have o: "overlay (enable st w) = Some (fresh_overlay st w)"
    using d by (rule enable_fresh)
  show ?thesis
    by (simp add: enable_enabled [OF e] applySettings_fresh_style [OF o] o)
qed

lemma currentY_enable: "currentY (enable st w) = currentY w"
  by (rule enable_keeps)

lemma currentY_onMessage: "currentY (snd (onMessage m w)) = currentY w"
proof (cases m)
  case (REAPPLY_STATE snapshot)
  then show ?thesis
    by (cases snapshot) (simp_all add: snd_onMessage enable_keeps disable_keeps)
qed (simp_all add: snd_onMessage enable_keeps disable_keeps applySettings_fields)

lemma currentY_setVar: "currentY (setVar n v w) = currentY w"
  by (simp add: setVar_def split: option.splits)

text \<open>Pointer samples only overwrite the pending slot.\<close>

lemma run_mousemoves:
  "mousemove_attached w \<Longrightarrow> ys \<noteq> [] \<Longrightarrow> run (map MouseMove ys) w = w\<lparr>pendingY := Some (last ys)\<rparr>"
proof (induction ys arbitrary: w)
  case Nil
  then show ?case by simp
next
  case (Cons y ys)
  show ?case
  proof (cases "ys = []")
    case True
    with Cons.prems show ?thesis by (simp add: onMouseMove_def)
  next
    case False
    have "mousemove_attached (onMouseMove y w)"
      using Cons.prems by (simp add: onMouseMove_def)
    from Cons.IH [OF this False] Cons.prems False show ?thesis
      by (simp add: onMouseMove_def)
  qed
qed

text \<open>While disabled, neither a pointer event nor a frame reaches the script.\<close>

lemma step_disabled:
  "ruler_inv w \<Longrightarrow> \<not> isEnabled w \<Longrightarrow> pointer_or_frame e \<Longrightarrow> step e w = w"
  by (cases e) (simp_all add: animation_frame_disabled inv_disabledD)

lemma run_disabled:
  "ruler_inv w \<Longrightarrow> \<not> isEnabled w \<Longrightarrow> list_all pointer_or_frame es \<Longrightarrow> run es w = w"
  by (induction es) (simp_all add: step_disabled)

lemma loop_disabled: "\<not> isEnabled w \<Longrightarrow> loop w = w"
  by (simp add: loop_def)

lemma inv_meaning:
  "ruler_inv w \<Longrightarrow>
   (overlay w \<noteq> None) = isEnabled w \<and> mousemove_attached w = isEnabled w \<and>
   resize_attached w = isEnabled w \<and> (raf_callbacks w \<noteq> []) = isEnabled w"
  by (auto simp: ruler_inv_def split: option.splits)

subsection \<open>The frame loop, with or without a document root\<close>

lemma frame_inv_of_inv: "ruler_inv w \<Longrightarrow> frame_inv w"
  by (auto simp: ruler_inv_def frame_inv_def)

lemma frame_inv_overlay: "frame_inv (w\<lparr>overlay := x\<rparr>) = frame_inv w"
  by (simp add: frame_inv_def)

lemma frame_inv_applySettings: "frame_inv w \<Longrightarrow> frame_inv (applySettings st w)"
  using applySettings_overlay_only [of st w] frame_inv_overlay [of "overlay (applySettings st w)" w]
  by simp

lemma frame_inv_enable: "frame_inv w \<Longrightarrow> frame_inv (enable st w)"
proof (cases "isEnabled w")
  case True
  assume "frame_inv w"
  with True show ?thesis by (simp add: enable_enabled frame_inv_applySettings)
next
  case False
  assume "frame_inv w"
  with False show ?thesis
    by (cases "has_root w") (auto simp: enable_disabled enable_rootless frame_inv_def)
qed

lemma frame_inv_disable: "frame_inv w \<Longrightarrow> frame_inv (disable w)"
  by (cases "rafId w")
     (auto simp: frame_inv_def disable_def stopRaf_def cancelAnimationFrame_def
        destroyOverlay_def console_debug_def Let_def)

lemma frame_inv_onMessage: "frame_inv w \<Longrightarrow> frame_inv (snd (onMessage m w))"
proof (cases m)
  case (REAPPLY_STATE snapshot)
  assume "frame_inv w"
  with REAPPLY_STATE show ?thesis
    by (cases snapshot) (simp_all add: snd_onMessage frame_inv_enable frame_inv_disable)
qed (simp_all add: snd_onMessage frame_inv_enable frame_inv_disable frame_inv_applySettings)

text \<open>One frame: nothing runs without a pending callback, and one \<open>loop\<close> runs with one.\<close>

lemma animation_frame_idle: "raf_callbacks w = [] \<Longrightarrow> animation_frame w = w"
  by (simp add: animation_frame_def)

lemma animation_frame_one:
  "raf_callbacks w = [h] \<Longrightarrow> isEnabled w \<Longrightarrow>
   animation_frame w =
     (case pendingY w of
        None \<Rightarrow> w
      | Some y \<Rightarrow> setVar ''--ruler-y'' (Px (Num y)) (w\<lparr>currentY := y, pendingY := None\<rparr>))
     \<lparr>raf_callbacks := [raf_next w], raf_next := Suc (raf_next w), rafId := Some (raf_next w)\<rparr>"
  by (cases "pendingY w"; cases "overlay w")
     (simp_all add: animation_frame_def loop_def requestAnimationFrame_def setVar_def Let_def)

lemma frame_inv_animation_frame: "frame_inv w \<Longrightarrow> frame_inv (animation_frame w)"
proof (cases "rafId w")
  case None
  assume "frame_inv w"
  with None show ?thesis by (simp add: frame_inv_def animation_frame_idle)
next
  case (Some h)
  assume "frame_inv w"
  with Some have c: "raf_callbacks w = [h]" and e: "isEnabled w"
    by (simp_all add: frame_inv_def)
  show ?thesis
    by (cases "pendingY w"; cases "overlay w")
       (simp_all add: animation_frame_one [OF c e] e frame_inv_def setVar_def)
qed

lemma frame_inv_step: "frame_inv w \<Longrightarrow> frame_inv (step e w)"
proof (cases e)
  case (MouseMove y)
  assume "frame_inv w"
  with MouseMove show ?thesis by (simp add: frame_inv_def onMouseMove_def)
next
  case (Resize a b)
  assume "frame_inv w"
  with Resize show ?thesis
    by (simp add: frame_inv_def onResize_def setVar_def Let_def split: option.splits)
next
  case AnimationFrame
  assume "frame_inv w"
  with AnimationFrame show ?thesis by (simp add: frame_inv_animation_frame)
next
  case (Message m)
  assume "frame_inv w"
  with Message show ?thesis by (simp add: frame_inv_onMessage)
qed

lemma frame_inv_run: "frame_inv w \<Longrightarrow> frame_inv (run es w)"
  by (induction es arbitrary: w) (simp_all add: frame_inv_step)

lemma frame_inv_init: "frame_inv w \<Longrightarrow> init r w = Inr w' \<Longrightarrow> frame_inv w'"
  by (rule init_preserves [where P = frame_inv and w = w and r = r])
     (simp_all add: frame_inv_enable, simp_all add: frame_inv_def registerMessageListener_def
        console_debug_def)

lemma frame_inv_boot: "frame_inv (boot r vw vh)"
proof -
  have "frame_inv (initial_world vw vh)" by (simp add: frame_inv_def initial_world_def)
  from frame_inv_init [OF this, of r] init_returns [of r "initial_world vw vh"]
  show ?thesis by (auto simp: boot_def)
qed

lemma frame_inv_boot_rootless: "frame_inv (boot_rootless r vw vh)"
proof -
  have "frame_inv (rootless_world vw vh)"
    by (simp add: frame_inv_def rootless_world_def initial_world_def)
  from frame_inv_init [OF this, of r] init_returns [of r "rootless_world vw vh"]
  show ?thesis by (auto simp: boot_rootless_def)
qed

lemma frame_inv_le1: "frame_inv w \<Longrightarrow> length (raf_callbacks w) \<le> 1"
  by (auto simp: frame_inv_def split: option.splits)

text \<open>The committed position changes only in a frame that commits a sample.\<close>

lemma currentY_step:
  "frame_inv w \<Longrightarrow> \<not> commits e w \<Longrightarrow> currentY (step e w) = currentY w"
proof (cases e)
  case (MouseMove y)
  then show ?thesis by (simp add: onMouseMove_def)
next
  case (Resize a b)
  then show ?thesis by (simp add: onResize_def Let_def currentY_setVar)
next
  case AnimationFrame
  assume i: "frame_inv w" and n: "\<not> commits e w"
  show ?thesis
  proof (cases "rafId w")
    case None
    with i AnimationFrame show ?thesis by (simp add: frame_inv_def animation_frame_idle)
  next
    case (Some h)
    with i have c: "raf_callbacks w = [h]" and en: "isEnabled w"
      by (simp_all add: frame_inv_def)
    with n AnimationFrame have "pendingY w = None" by (simp add: commits_def)
    with AnimationFrame show ?thesis by (simp add: animation_frame_one [OF c en])
  qed
next
  case (Message m)
  then show ?thesis by (simp add: currentY_onMessage)
qed

lemma currentY_run:
  "frame_inv w \<Longrightarrow> no_commit es w \<Longrightarrow> currentY (run es w) = currentY w"
  by (induction es arbitrary: w) (simp_all add: currentY_step frame_inv_step)

lemma currentY_init: "init r w = Inr w' \<Longrightarrow> currentY w' = currentY w"
  by (rule init_preserves [where P = "\<lambda>v. currentY v = currentY w" and w = w and r = r])
     (simp_all add: enable_keeps registerMessageListener_def console_debug_def)

lemma currentY_boot: "currentY (boot r vw vh) = vh / 2"
  using currentY_init [of r "initial_world vw vh"] init_returns [of r "initial_world vw vh"]
  by (auto simp: boot_def initial_world_def)

subsection \<open>The concrete page contexts\<close>

lemma page_off_eq:
  "page_off = (initial_world 1280 800)\<lparr>message_listener := True\<rparr>"
  by (simp add: page_off_def stored_off_def boot_def init_def init_try_def
        registerMessageListener_def)

lemma page_off_facts:
  "ruler_inv page_off" "\<not> isEnabled page_off" "overlay page_off = None"
  "message_listener page_off" "currentY page_off = 400" "pendingY page_off = None"
  "has_root page_off"
  by (simp_all add: page_off_eq initial_world_def ruler_inv_def)

lemma page_on_eq:
  "page_on = enable \<lparr>height = Num 40, opacity = Num 0.75\<rparr> page_off"
  by (simp add: page_on_def page_off_facts snd_onMessage)

lemma page_on_inv: "ruler_inv page_on"
  unfolding page_on_eq by (rule inv_enable) (rule page_off_facts)+

lemma page_on_facts:
  "isEnabled page_on" "pendingY page_on = None" "currentY page_on = 400"
  "raf_callbacks page_on = [1]" "rafId page_on = Some 1" "raf_next page_on = 2"
  "mousemove_attached page_on" "message_listener page_on"
  "overlay page_on = Some (fresh_overlay \<lparr>height = Num 40, opacity = Num 0.75\<rparr> page_off)"
  "has_root page_on"
  by (simp_all add: page_on_eq page_off_facts enable_disabled)
     (simp_all add: page_off_eq initial_world_def)

lemma page_rootless_eq:
  "page_rootless =
     (rootless_world 1280 800)
       \<lparr>isEnabled := True, shadowHost := True, shadowRoot := True,
         overlay := Some (fresh_overlay \<lparr>height = Num 40, opacity = Num 0.75\<rparr>
                            (rootless_world 1280 800)),
         host_in_document := False,
         console := [''[AccessiLens] focus-ruler storage read failed: Cannot read properties of null (reading appendChild)''],
         message_listener := True\<rparr>"
proof -
  let ?st = "\<lparr>height = Num 40, opacity = Num 0.75\<rparr>"
  have d: "\<not> isEnabled (rootless_world 1280 800)" and r: "\<not> has_root (rootless_world 1280 800)"
    and c: "console (rootless_world 1280 800) = []"
    by (simp_all add: rootless_world_def initial_world_def)
  have "enable_call ?st (rootless_world 1280 800) =
      (Some ''Cannot read properties of null (reading appendChild)'',
       enable ?st (rootless_world 1280 800))"
    using enable_call_eq [of ?st "rootless_world 1280 800"] d r
    by (simp add: enable_call_throws)
  then show ?thesis
    by (simp add: page_rootless_def boot_rootless_def stored_on_def init_def init_try_def
          DEFAULT_HEIGHT_def DEFAULT_OPACITY_def enable_rootless [OF d r]
          registerMessageListener_def console_debug_def c)
qed

lemma page_rootless_facts:
  "isEnabled page_rootless" "overlay page_rootless \<noteq> None"
  "\<not> host_in_document page_rootless" "\<not> mousemove_attached page_rootless"
  "\<not> resize_attached page_rootless" "raf_callbacks page_rootless = []"
  "rafId page_rootless = None" "message_listener page_rootless"
  "console page_rootless =
     [''[AccessiLens] focus-ruler storage read failed: Cannot read properties of null (reading appendChild)'']"
  by (simp_all add: page_rootless_eq rootless_world_def initial_world_def)

lemma boot_rootless_off:
  "boot_rootless (Resolved stored_off) 1280 800 = (rootless_world 1280 800)\<lparr>message_listener := True\<rparr>"
  by (simp add: boot_rootless_def stored_off_def init_def init_try_def registerMessageListener_def)

section \<open>Settings while disabled\<close>

text \<open>
  C1, as the specification has it: settings sent while the ruler is disabled, or set before a
  disable, would be kept and applied by the next enable that supplies none. The script keeps
  no thickness or intensity variable: on \<open>page_off\<close>, an update to 60 and 0.3 followed by a
  toggle without settings builds the surface with 40 and 0.75; and a ruler enabled with 60
  and 0.3, then disabled and enabled without settings, comes back with 40 and 0.75.
\<close>

theorem settings_lost_counterexample:
  "surface_var ''--ruler-height''
     (run [Message (FOCUS_RULER_UPDATE_SETTINGS (Some \<lparr>height = Num 60, opacity = Num 0.3\<rparr>)),
           Message (FOCUS_RULER_TOGGLE (Bool True) None)] page_off) \<noteq> Some (Px (Num 60)) \<and>
   surface_var ''--ruler-height''
     (run [Message (FOCUS_RULER_UPDATE_SETTINGS (Some \<lparr>height = Num 60, opacity = Num 0.3\<rparr>)),
           Message (FOCUS_RULER_TOGGLE (Bool True) None)] page_off) = Some (Px (Num 40)) \<and>
   surface_var ''--dim-opacity''
     (run [Message (FOCUS_RULER_UPDATE_SETTINGS (Some \<lparr>height = Num 60, opacity = Num 0.3\<rparr>)),
           Message (FOCUS_RULER_TOGGLE (Bool True) None)] page_off) = Some (Plain (Num 0.75)) \<and>
   surface_var ''--ruler-height''
     (run [Message (FOCUS_RULER_TOGGLE (Bool True) (Some \<lparr>height = Num 60, opacity = Num 0.3\<rparr>)),
           Message (FOCUS_RULER_TOGGLE (Bool False) None),
           Message (FOCUS_RULER_TOGGLE (Bool True) None)] page_off) = Some (Px (Num 40)) \<and>
   surface_var ''--dim-opacity''
     (run [Message (FOCUS_RULER_TOGGLE (Bool True) (Some \<lparr>height = Num 60, opacity = Num 0.3\<rparr>)),
           Message (FOCUS_RULER_TOGGLE (Bool False) None),
           Message (FOCUS_RULER_TOGGLE (Bool True) None)] page_off) = Some (Plain (Num 0.75))"
  by (simp add: snd_onMessage page_off_facts applySettings_None enable_keeps disable_keeps
        surface_var_enable_fresh isEnabled_disable DEFAULT_HEIGHT_def DEFAULT_OPACITY_def)

text \<open>
  C1, amended: \<open>applySettings\<close> without a surface changes nothing, so nothing is retained;
  whatever was set before, a surface created after a disable shows the thickness and
  intensity given to that \<open>enable\<close>, with 40 and 0.75 for the fields it leaves undefined.
\<close>

theorem settings_not_retained:
  "(overlay w = None \<longrightarrow> applySettings st w = w) \<and>
   surface_var ''--ruler-height'' (enable st' (disable (applySettings st w))) =
     Some (Px (default_to (height st') (Num 40))) \<and>
   surface_var ''--dim-opacity'' (enable st' (disable (applySettings st w))) =
     Some (Plain (default_to (opacity st') (Num 0.75)))"
  by (simp add: applySettings_None surface_var_enable_fresh isEnabled_disable
        DEFAULT_HEIGHT_def DEFAULT_OPACITY_def)

theorem settings_not_retained_witness:
  "overlay page_off = None \<and>
   applySettings \<lparr>height = Num 60, opacity = Num 0.3\<rparr> page_off = page_off \<and>
   surface_var ''--ruler-height''
     (enable no_settings (disable (applySettings \<lparr>height = Num 60, opacity = Num 0.3\<rparr> page_off))) =
     Some (Px (Num 40)) \<and>
   surface_var ''--dim-opacity''
     (enable no_settings (disable (applySettings \<lparr>height = Num 60, opacity = Num 0.3\<rparr> page_off))) =
     Some (Plain (Num 0.75))"
  using settings_not_retained [of page_off "\<lparr>height = Num 60, opacity = Num 0.3\<rparr>" no_settings]
  by (auto simp: page_off_facts no_settings_def)

section \<open>Pointer samples and frames\<close>

text \<open>
  C2: with the ruler enabled, any non-empty run of pointer samples between two frames leaves
  the surface untouched until the frame; the frame then makes exactly one
  \<^verbatim>\<open>setProperty\<close> call, for \<^verbatim>\<open>--ruler-y\<close> with the last sample, which becomes
  \<open>currentY\<close>, and clears the pending slot. No earlier sample reaches the surface.
\<close>

theorem last_sample_wins:
  assumes "ruler_inv w" and "isEnabled w" and "ys \<noteq> []"
  shows "surface_calls (run (map MouseMove ys) w) = surface_calls w \<and>
    surface_calls (step AnimationFrame (run (map MouseMove ys) w)) =
      surface_calls w @ [(''--ruler-y'', Px (Num (last ys)))] \<and>
    currentY (step AnimationFrame (run (map MouseMove ys) w)) = last ys \<and>
    pendingY (step AnimationFrame (run (map MouseMove ys) w)) = None \<and>
    surface_var ''--ruler-y'' (step AnimationFrame (run (map MouseMove ys) w)) =
      Some (Px (Num (last ys)))"
proof -
  from assms(1,2) obtain el where el: "overlay w = Some el" and mm: "mousemove_attached w"
    by (rule inv_enabledD)
  have r: "run (map MouseMove ys) w = w\<lparr>pendingY := Some (last ys)\<rparr>"
    using mm assms(3) by (rule run_mousemoves)
  have i: "ruler_inv (w\<lparr>pendingY := Some (last ys)\<rparr>)"
    using assms(1) by (auto simp: ruler_inv_def)
  have e: "isEnabled (w\<lparr>pendingY := Some (last ys)\<rparr>)"
    using assms(2) by simp
  show ?thesis
    by (simp add: r animation_frame_enabled [OF i e] surface_calls_def surface_var_def
          setVar_def el update_conv')
qed

theorem last_sample_wins_witness:
  "ruler_inv page_on \<and> isEnabled page_on \<and> [100, 200, 300] \<noteq> ([] :: real list) \<and>
   surface_calls (run (map MouseMove [100, 200, 300]) page_on) = surface_calls page_on \<and>
   surface_calls (step AnimationFrame (run (map MouseMove [100, 200, 300]) page_on)) =
     surface_calls page_on @ [(''--ruler-y'', Px (Num 300))] \<and>
   currentY (step AnimationFrame (run (map MouseMove [100, 200, 300]) page_on)) = 300"
  using last_sample_wins [of page_on "[100, 200, 300]"]
  by (auto simp: page_on_inv page_on_facts)

text \<open>
  C3: once \<open>disable\<close> has returned, no frame callback of the script is pending and no
  pointer listener is attached, so any pointer events and frames the browser still
  dispatches, in any order and number, leave the state exactly as \<open>disable\<close> left it;
  and should \<open>loop\<close> be invoked all the same, its check of \<open>isEnabled\<close> makes it return
  without touching the surface and without scheduling another frame.
\<close>

theorem disable_cancels:
  "ruler_inv w \<Longrightarrow>
   raf_callbacks (disable w) = [] \<and> rafId (disable w) = None \<and>
   \<not> mousemove_attached (disable w) \<and> \<not> resize_attached (disable w) \<and>
   overlay (disable w) = None \<and>
   (list_all pointer_or_frame es \<longrightarrow> run es (disable w) = disable w) \<and>
   loop (disable w) = disable w"
  by (simp add: inv_disabledD [OF inv_disable isEnabled_disable] run_disabled
        inv_disable isEnabled_disable loop_disabled)

theorem disable_cancels_witness:
  "ruler_inv page_on \<and> list_all pointer_or_frame [MouseMove 5, AnimationFrame, MouseMove 7] \<and>
   raf_callbacks (disable page_on) = [] \<and>
   run [MouseMove 5, AnimationFrame, MouseMove 7] (disable page_on) = disable page_on \<and>
   loop (disable page_on) = disable page_on"
  using disable_cancels [of page_on "[MouseMove 5, AnimationFrame, MouseMove 7]"]
  by (auto simp: page_on_inv)

section \<open>The frame scheduler\<close>

text \<open>
  C4: the frame loop is started in one place, \<open>enable\<close> on a disabled ruler; on an enabled
  ruler \<open>enable\<close> returns before it, so it registers no callback and leaves \<open>rafId\<close> and
  the browser's handle counter alone. Hence in every state a page context reaches after
  \<open>init\<close>, by any commands and page events, at most one frame callback of the script is
  pending; this holds in a document without body or root as well.
\<close>

theorem single_frame_callback:
  "length (raf_callbacks (run es (boot r vw vh))) \<le> 1 \<and>
   length (raf_callbacks (run es (boot_rootless r vw vh))) \<le> 1 \<and>
   (isEnabled w \<longrightarrow>
      raf_callbacks (enable st w) = raf_callbacks w \<and> rafId (enable st w) = rafId w \<and>
      raf_next (enable st w) = raf_next w)"
  using frame_inv_le1 [OF frame_inv_run [OF frame_inv_boot], of es r vw vh]
    frame_inv_le1 [OF frame_inv_run [OF frame_inv_boot_rootless], of es r vw vh]
  by (simp add: enable_enabled applySettings_fields)

theorem single_frame_callback_witness:
  "isEnabled page_on \<and>
   raf_callbacks page_on = [1] \<and>
   raf_callbacks (enable \<lparr>height = Num 60, opacity = Undefined\<rparr> page_on) = [1] \<and>
   rafId (enable \<lparr>height = Num 60, opacity = Undefined\<rparr> page_on) = Some 1 \<and>
   length (raf_callbacks (run [Message (FOCUS_RULER_TOGGLE (Bool True) None), AnimationFrame,
      Message (FOCUS_RULER_TOGGLE (Bool True) None), AnimationFrame]
      (boot (Resolved stored_off) 1280 800))) \<le> 1"
  using single_frame_callback [of "[Message (FOCUS_RULER_TOGGLE (Bool True) None), AnimationFrame,
      Message (FOCUS_RULER_TOGGLE (Bool True) None), AnimationFrame]" "Resolved stored_off"
      1280 800 page_on "\<lparr>height = Num 60, opacity = Undefined\<rparr>"]
  by (auto simp: page_on_facts simp del: run.simps)

section \<open>Lifecycle\<close>

text \<open>
  C5: \<open>enable\<close> on an enabled ruler changes nothing but the style of the existing overlay
  element: the element keeps its history and receives one \<^verbatim>\<open>setProperty\<close> call per
  field that is not undefined, so listeners, pending callback and \<open>rafId\<close> are as before.
  Two \<open>enable\<close> calls with the same settings on a disabled ruler leave the surface showing,
  for every property, what one call leaves, and every other part of the state equal.
  \<open>disable\<close> on a disabled ruler returns the state unchanged. Neither call throws:
  \<open>enable\<close> on an enabled ruler never reaches \<open>createOverlay\<close>, and \<open>disable\<close> has no
  statement that can throw.
\<close>

theorem lifecycle_idempotent:
  "(ruler_inv w \<and> isEnabled w \<longrightarrow>
      fst (enable_call st w) = None \<and>
      enable st w = w\<lparr>overlay := overlay (enable st w)\<rparr> \<and>
      surface_calls (enable st w) =
        surface_calls w @
        (if height st \<noteq> Undefined then [(''--ruler-height'', Px (height st))] else []) @
        (if opacity st \<noteq> Undefined then [(''--dim-opacity'', Plain (opacity st))] else []) \<and>
      surface_var ''--ruler-height'' (enable st w) =
        (if height st \<noteq> Undefined then Some (Px (height st)) else surface_var ''--ruler-height'' w) \<and>
      surface_var ''--dim-opacity'' (enable st w) =
        (if opacity st \<noteq> Undefined then Some (Plain (opacity st)) else surface_var ''--dim-opacity'' w)) \<and>
   (\<not> isEnabled v \<longrightarrow>
      surface_var name (enable st (enable st v)) = surface_var name (enable st v) \<and>
      (enable st (enable st v))\<lparr>overlay := overlay (enable st v)\<rparr> = enable st v \<and>
      disable v = v)"
proof (intro conjI impI)
  assume a: "ruler_inv w \<and> isEnabled w"
  then have o: "overlay w \<noteq> None" by (auto simp: ruler_inv_def)
  from a have e: "enable st w = applySettings st w" by (simp add: enable_enabled)
  from a show "fst (enable_call st w) = None" by (simp add: enable_call_throws)
  show "enable st w = w\<lparr>overlay := overlay (enable st w)\<rparr>"
    unfolding e by (rule applySettings_overlay_only)
  show "surface_calls (enable st w) =
        surface_calls w @
        (if height st \<noteq> Undefined then [(''--ruler-height'', Px (height st))] else []) @
        (if opacity st \<noteq> Undefined then [(''--dim-opacity'', Plain (opacity st))] else [])"
    unfolding e by (rule applySettings_calls [OF o])
  show "surface_var ''--ruler-height'' (enable st w) =
        (if height st \<noteq> Undefined then Some (Px (height st)) else surface_var ''--ruler-height'' w)"
    unfolding e by (rule applySettings_vars(1) [OF o])
  show "surface_var ''--dim-opacity'' (enable st w) =
        (if opacity st \<noteq> Undefined then Some (Plain (opacity st)) else surface_var ''--dim-opacity'' w)"
    unfolding e by (rule applySettings_vars(2) [OF o])
next
  assume d: "\<not> isEnabled v"
  have e: "isEnabled (enable st v)" using d by (rule enable_fresh)
  from enable_twice_style [of v st, OF d]
  show "surface_var name (enable st (enable st v)) = surface_var name (enable st v)"
    by (cases "overlay (enable st (enable st v))"; cases "overlay (enable st v)")
       (simp_all add: surface_var_def)
  have "enable st (enable st v) = (enable st v)\<lparr>overlay := overlay (enable st (enable st v))\<rparr>"
    unfolding enable_enabled [OF e] by (rule applySettings_overlay_only)
  then have "(enable st (enable st v))\<lparr>overlay := overlay (enable st v)\<rparr> =
      (enable st v)\<lparr>overlay := overlay (enable st (enable st v))\<rparr>\<lparr>overlay := overlay (enable st v)\<rparr>"
    by simp
  then show "(enable st (enable st v))\<lparr>overlay := overlay (enable st v)\<rparr> = enable st v"
    by simp
  show "disable v = v" using d by (rule disable_disabled)
qed

theorem lifecycle_idempotent_witness:
  "ruler_inv page_on \<and> isEnabled page_on \<and> \<not> isEnabled page_off \<and>
   surface_var ''--ruler-height'' (enable \<lparr>height = Num 60, opacity = Undefined\<rparr> page_on) =
     Some (Px (Num 60)) \<and>
   surface_var ''--dim-opacity'' (enable \<lparr>height = Num 60, opacity = Undefined\<rparr> page_on) =
     Some (Plain (Num 0.75)) \<and>
   surface_var ''--ruler-height''
     (enable \<lparr>height = Num 60, opacity = Undefined\<rparr>
        (enable \<lparr>height = Num 60, opacity = Undefined\<rparr> page_off)) = Some (Px (Num 60)) \<and>
   disable page_off = page_off"
proof -
  have i: "ruler_inv page_on \<and> isEnabled page_on" by (simp add: page_on_inv page_on_facts)
  have d: "\<not> isEnabled page_off" by (simp add: page_off_facts)
  have o: "surface_var ''--dim-opacity'' page_on = Some (Plain (Num 0.75))"
    by (simp add: surface_var_def page_on_facts fresh_overlay_def DEFAULT_OPACITY_def)
  have f: "surface_var ''--ruler-height'' (enable \<lparr>height = Num 60, opacity = Undefined\<rparr> page_off) =
      Some (Px (Num 60))"
    by (simp add: surface_var_enable_fresh [OF d])
  note t = lifecycle_idempotent [of page_on "\<lparr>height = Num 60, opacity = Undefined\<rparr>" page_off
      "''--ruler-height''"]
  from t i have "surface_var ''--ruler-height'' (enable \<lparr>height = Num 60, opacity = Undefined\<rparr> page_on) =
     Some (Px (Num 60))" by simp
  moreover from t i o have "surface_var ''--dim-opacity'' (enable \<lparr>height = Num 60, opacity = Undefined\<rparr> page_on) =
     Some (Plain (Num 0.75))" by simp
  moreover from t d f have "surface_var ''--ruler-height''
     (enable \<lparr>height = Num 60, opacity = Undefined\<rparr>
        (enable \<lparr>height = Num 60, opacity = Undefined\<rparr> page_off)) = Some (Px (Num 60))" by simp
  moreover from t d have "disable page_off = page_off" by simp
  ultimately show ?thesis using i d by simp
qed

text \<open>
  In a document with a body or root element the lifecycle invariant holds after injection
  and after \<open>init\<close>, and \<open>enable\<close>, \<open>disable\<close>, a settings update, the handling of any
  message and any page event preserve it.
\<close>

lemma rooted_lifecycle:
  "ruler_inv (initial_world vw vh) \<and> ruler_inv (boot r vw vh) \<and>
   ruler_inv (run es (boot r vw vh)) \<and>
   (ruler_inv w \<and> has_root w \<longrightarrow>
      ruler_inv (enable st w) \<and> ruler_inv (disable w) \<and> ruler_inv (applySettings st w) \<and>
      ruler_inv (snd (onMessage m w)) \<and> ruler_inv (step e w) \<and>
      (overlay w \<noteq> None) = isEnabled w \<and> host_in_document w = isEnabled w \<and>
      mousemove_attached w = isEnabled w \<and> resize_attached w = isEnabled w \<and>
      (raf_callbacks w \<noteq> []) = isEnabled w)"
proof -
  have "ruler_inv w \<Longrightarrow> host_in_document w = isEnabled w"
    by (simp add: ruler_inv_def)
  then show ?thesis
    using inv_meaning [of w]
    by (simp add: inv_initial inv_boot has_root_boot inv_run inv_enable inv_disable
          inv_applySettings inv_onMessage inv_step)
qed

text \<open>
  C6 fails in a document that has neither body nor root element. \<open>enable\<close> sets
  \<open>isEnabled\<close> first; \<open>createOverlay\<close> then builds the overlay and throws at
  \<^verbatim>\<open>appendChild\<close>; the listeners and the frame loop are never set up. On \<open>page_rootless\<close>
  the error is caught and logged by \<open>init\<close>, which leaves the ruler enabled with an overlay
  element that is not in the document, no listener and no frame callback. A later toggle
  command finds \<open>isEnabled\<close> set and repairs nothing, and the same state arises when the
  first \<open>enable\<close> comes from a toggle command, which then sends no response.
\<close>

theorem enable_throw_partial_state:
  "isEnabled page_rootless \<and> overlay page_rootless \<noteq> None \<and>
   \<not> host_in_document page_rootless \<and>
   \<not> mousemove_attached page_rootless \<and> \<not> resize_attached page_rootless \<and>
   raf_callbacks page_rootless = [] \<and> rafId page_rootless = None \<and>
   \<not> ruler_inv page_rootless \<and>
   console page_rootless =
     [''[AccessiLens] focus-ruler storage read failed: Cannot read properties of null (reading appendChild)''] \<and>
   \<not> mousemove_attached (step (Message (FOCUS_RULER_TOGGLE (Bool True) None)) page_rootless) \<and>
   raf_callbacks (step (Message (FOCUS_RULER_TOGGLE (Bool True) None)) page_rootless) = [] \<and>
   \<not> ruler_inv (step (Message (FOCUS_RULER_TOGGLE (Bool True) None)) page_rootless) \<and>
   fst (onMessage (FOCUS_RULER_TOGGLE (Bool True) None) (boot_rootless (Resolved stored_off) 1280 800)) = None \<and>
   isEnabled (step (Message (FOCUS_RULER_TOGGLE (Bool True) None))
     (boot_rootless (Resolved stored_off) 1280 800)) \<and>
   \<not> mousemove_attached (step (Message (FOCUS_RULER_TOGGLE (Bool True) None))
     (boot_rootless (Resolved stored_off) 1280 800)) \<and>
   \<not> ruler_inv (step (Message (FOCUS_RULER_TOGGLE (Bool True) None))
     (boot_rootless (Resolved stored_off) 1280 800))"
proof -
  let ?t = "Message (FOCUS_RULER_TOGGLE (Bool True) None)"
  let ?b = "boot_rootless (Resolved stored_off) 1280 800"
  have a: "\<not> ruler_inv page_rootless"
    by (simp add: ruler_inv_def page_rootless_facts)
  have s: "step ?t page_rootless = applySettings \<lparr>height = Undefined, opacity = Undefined\<rparr> page_rootless"
    by (simp add: snd_onMessage page_rootless_facts enable_enabled)
  have s': "step ?t page_rootless = page_rootless"
    unfolding s by (simp add: applySettings_def)
  have d: "\<not> isEnabled ?b" and r: "\<not> has_root ?b" and m: "message_listener ?b"
    by (simp_all add: boot_rootless_off rootless_world_def initial_world_def)
  have f: "fst (onMessage (FOCUS_RULER_TOGGLE (Bool True) None) ?b) = None"
    using d r by (simp add: fst_onMessage_toggle enable_call_throws)
  have e: "step ?t ?b = enable \<lparr>height = Undefined, opacity = Undefined\<rparr> ?b"
    using m by (simp add: snd_onMessage)
  have g: "isEnabled (step ?t ?b)" "\<not> mousemove_attached (step ?t ?b)"
    unfolding e using d r
    by (simp_all add: enable_rootless boot_rootless_off rootless_world_def initial_world_def)
  then have h: "\<not> ruler_inv (step ?t ?b)" by (simp add: ruler_inv_def)
  show ?thesis
    unfolding s' using a f g h by (simp add: page_rootless_facts)
qed

section \<open>Initialization\<close>

text \<open>
  C7: \<open>init\<close> returns normally whatever the storage read does. When the read is rejected,
  the state is the one before \<open>init\<close> with a line added to the console and the message
  listener registered: on a fresh page the ruler is disabled, with no surface, no window
  listener and no pending frame callback, and a later toggle command enables it.
\<close>

theorem init_read_failure:
  "(\<exists>w'. init r w = Inr w') \<and>
   init (Rejected msg) w =
     Inr (w\<lparr>message_listener := True,
            console := console w @ [''[AccessiLens] focus-ruler storage read failed: '' @ msg]\<rparr>) \<and>
   \<not> isEnabled (boot (Rejected msg) vw vh) \<and>
   overlay (boot (Rejected msg) vw vh) = None \<and>
   \<not> host_in_document (boot (Rejected msg) vw vh) \<and>
   \<not> mousemove_attached (boot (Rejected msg) vw vh) \<and>
   \<not> resize_attached (boot (Rejected msg) vw vh) \<and>
   raf_callbacks (boot (Rejected msg) vw vh) = [] \<and>
   message_listener (boot (Rejected msg) vw vh) \<and>
   ruler_inv (boot (Rejected msg) vw vh) \<and>
   isEnabled (step (Message (FOCUS_RULER_TOGGLE (Bool True) sett)) (boot (Rejected msg) vw vh))"
  by (simp add: init_returns inv_boot)
     (simp add: init_Rejected boot_def initial_world_def snd_onMessage enable_fresh)

theorem init_read_failure_witness:
  "init (Rejected ''Access to storage is not allowed from this context.'') (initial_world 1280 800) =
     Inr ((initial_world 1280 800)\<lparr>message_listener := True,
            console := [''[AccessiLens] focus-ruler storage read failed: Access to storage is not allowed from this context.'']\<rparr>) \<and>
   \<not> isEnabled (boot (Rejected ''Access to storage is not allowed from this context.'') 1280 800) \<and>
   isEnabled (step (Message (FOCUS_RULER_TOGGLE (Bool True) None))
     (boot (Rejected ''Access to storage is not allowed from this context.'') 1280 800))"
  using init_read_failure [of "Resolved stored_off" "initial_world 1280 800"
      "''Access to storage is not allowed from this context.''" 1280 800 None]
  by (auto simp: initial_world_def)

section \<open>Reapplying state after navigation\<close>

text \<open>
  C8: on a disabled ruler, a reapply-state message whose snapshot has the ruler enabled with
  height \<open>h\<close> and opacity \<open>d\<close> (such as 60 and 0.3) leaves the ruler enabled and the
  surface showing thickness \<open>h\<close> and intensity \<open>d\<close>, with the shadow host in the document
  (wherever the document has a body or root to hold it), and a state query answering
  enabled; a snapshot whose enabled flag is not truthy is handled as \<open>disable\<close>.
\<close>

theorem reapply_state:
  "\<not> isEnabled w \<Longrightarrow>
   isEnabled (snd (onMessage (REAPPLY_STATE (Some \<lparr>focusRulerEnabled = Bool True,
       rulerHeight = Num h, dimOpacity = Num d\<rparr>)) w)) \<and>
   overlay (snd (onMessage (REAPPLY_STATE (Some \<lparr>focusRulerEnabled = Bool True,
       rulerHeight = Num h, dimOpacity = Num d\<rparr>)) w)) \<noteq> None \<and>
   host_in_document (snd (onMessage (REAPPLY_STATE (Some \<lparr>focusRulerEnabled = Bool True,
       rulerHeight = Num h, dimOpacity = Num d\<rparr>)) w)) = has_root w \<and>
   surface_var ''--ruler-height'' (snd (onMessage (REAPPLY_STATE (Some \<lparr>focusRulerEnabled = Bool True,
       rulerHeight = Num h, dimOpacity = Num d\<rparr>)) w)) = Some (Px (Num h)) \<and>
   surface_var ''--dim-opacity'' (snd (onMessage (REAPPLY_STATE (Some \<lparr>focusRulerEnabled = Bool True,
       rulerHeight = Num h, dimOpacity = Num d\<rparr>)) w)) = Some (Plain (Num d)) \<and>
   fst (onMessage FOCUS_RULER_GET_STATE (snd (onMessage (REAPPLY_STATE (Some \<lparr>focusRulerEnabled = Bool True,
       rulerHeight = Num h, dimOpacity = Num d\<rparr>)) w))) = Some (State_response True (currentY w)) \<and>
   (\<not> truthy (focusRulerEnabled s) \<longrightarrow> snd (onMessage (REAPPLY_STATE (Some s)) v) = disable v)"
  by (simp add: snd_onMessage fst_onMessage_get_state enable_fresh enable_keeps
        surface_var_def fresh_overlay_def)

theorem reapply_state_witness:
  "\<not> isEnabled page_off \<and> \<not> truthy (focusRulerEnabled stored_off) \<and>
   isEnabled (snd (onMessage (REAPPLY_STATE (Some \<lparr>focusRulerEnabled = Bool True,
       rulerHeight = Num 60, dimOpacity = Num 0.3\<rparr>)) page_off)) \<and>
   host_in_document (snd (onMessage (REAPPLY_STATE (Some \<lparr>focusRulerEnabled = Bool True,
       rulerHeight = Num 60, dimOpacity = Num 0.3\<rparr>)) page_off)) \<and>
   surface_var ''--ruler-height'' (snd (onMessage (REAPPLY_STATE (Some \<lparr>focusRulerEnabled = Bool True,
       rulerHeight = Num 60, dimOpacity = Num 0.3\<rparr>)) page_off)) = Some (Px (Num 60)) \<and>
   surface_var ''--dim-opacity'' (snd (onMessage (REAPPLY_STATE (Some \<lparr>focusRulerEnabled = Bool True,
       rulerHeight = Num 60, dimOpacity = Num 0.3\<rparr>)) page_off)) = Some (Plain (Num 0.3)) \<and>
   snd (onMessage (REAPPLY_STATE (Some stored_off)) page_on) = disable page_on"
proof -
  have d: "\<not> isEnabled page_off" by (simp add: page_off_facts)
  have r: "has_root page_off" by (simp add: page_off_facts)
  have f: "\<not> truthy (focusRulerEnabled stored_off)" by (simp add: stored_off_def)
  from reapply_state [OF d, of 60 "0.3" stored_off page_on] d f r
  show ?thesis by blast
qed

section \<open>The committed position\<close>

text \<open>
  C9, as the specification has it: on the first \<open>enable\<close> the committed position would be
  half the height the viewport has then. \<open>currentY\<close> starts as \<open>DEFAULT_Y\<close>, computed when
  the script is injected: on \<open>page_off\<close>, injected at a height of 800, a resize to 600
  followed by the first \<open>enable\<close> leaves \<open>currentY\<close> at 400, which the state query reports
  and the surface shows, in a viewport whose half height is 300.
\<close>

theorem initial_cursor_counterexample:
  "innerHeight (run [Resize 1280 600,
      Message (FOCUS_RULER_TOGGLE (Bool True) (Some \<lparr>height = Num 40, opacity = Num 0.75\<rparr>))]
      page_off) = 600 \<and>
   currentY (run [Resize 1280 600,
      Message (FOCUS_RULER_TOGGLE (Bool True) (Some \<lparr>height = Num 40, opacity = Num 0.75\<rparr>))]
      page_off) \<noteq> 600 / 2 \<and>
   currentY (run [Resize 1280 600,
      Message (FOCUS_RULER_TOGGLE (Bool True) (Some \<lparr>height = Num 40, opacity = Num 0.75\<rparr>))]
      page_off) = 400 \<and>
   fst (onMessage FOCUS_RULER_GET_STATE (run [Resize 1280 600,
      Message (FOCUS_RULER_TOGGLE (Bool True) (Some \<lparr>height = Num 40, opacity = Num 0.75\<rparr>))]
      page_off)) = Some (State_response True 400) \<and>
   surface_var ''--ruler-y'' (run [Resize 1280 600,
      Message (FOCUS_RULER_TOGGLE (Bool True) (Some \<lparr>height = Num 40, opacity = Num 0.75\<rparr>))]
      page_off) = Some (Px (Num 400)) \<and>
   surface_var ''--vh'' (run [Resize 1280 600,
      Message (FOCUS_RULER_TOGGLE (Bool True) (Some \<lparr>height = Num 40, opacity = Num 0.75\<rparr>))]
      page_off) = Some (Px (Num 600))"
proof -
  let ?st = "\<lparr>height = Num 40, opacity = Num 0.75\<rparr>"
  let ?w = "page_off\<lparr>innerWidth := 1280, innerHeight := 600\<rparr>"
  have r: "run [Resize 1280 600, Message (FOCUS_RULER_TOGGLE (Bool True) (Some ?st))] page_off =
      enable ?st ?w"
    by (simp add: snd_onMessage page_off_eq initial_world_def)
  have d: "\<not> isEnabled ?w" by (simp add: page_off_facts)
  have c: "currentY ?w = 400" "innerHeight ?w = 600" by (simp_all add: page_off_facts)
  show ?thesis
    unfolding r
    using c
    by (simp add: enable_keeps fst_onMessage_get_state enable_fresh [OF d]
          surface_var_enable_fresh [OF d])
qed

text \<open>
  C9, amended: in a page context injected into a window of height \<open>vh\<close>, after any commands
  and page events among which no frame commits a pointer sample (resizes, the first
  \<open>enable\<close> and frames that find nothing pending included), \<open>currentY\<close> is \<open>vh / 2\<close> and the
  state query reports \<open>vh / 2\<close>: half the height at injection, 400 for a window that was
  800 high then.
\<close>

theorem initial_cursor:
  "no_commit es (boot r vw vh) \<Longrightarrow>
   currentY (run es (boot r vw vh)) = vh / 2 \<and>
   fst (onMessage FOCUS_RULER_GET_STATE (run es (boot r vw vh))) =
     Some (State_response (isEnabled (run es (boot r vw vh))) (vh / 2))"
  by (simp add: currentY_run [OF frame_inv_boot] currentY_boot fst_onMessage_get_state)

theorem initial_cursor_witness:
  "no_commit [Resize 1280 600,
      Message (FOCUS_RULER_TOGGLE (Bool True) (Some \<lparr>height = Num 40, opacity = Num 0.75\<rparr>)),
      AnimationFrame] (boot (Resolved stored_off) 1280 800) \<and>
   currentY (run [Resize 1280 600,
      Message (FOCUS_RULER_TOGGLE (Bool True) (Some \<lparr>height = Num 40, opacity = Num 0.75\<rparr>)),
      AnimationFrame] (boot (Resolved stored_off) 1280 800)) = 400 \<and>
   fst (onMessage FOCUS_RULER_GET_STATE
     (run [Resize 1280 600,
      Message (FOCUS_RULER_TOGGLE (Bool True) (Some \<lparr>height = Num 40, opacity = Num 0.75\<rparr>)),
      AnimationFrame] (boot (Resolved stored_off) 1280 800))) = Some (State_response True 400)"
proof -
  let ?es = "[Resize 1280 600,
      Message (FOCUS_RULER_TOGGLE (Bool True) (Some \<lparr>height = Num 40, opacity = Num 0.75\<rparr>)),
      AnimationFrame]"
  let ?b = "boot (Resolved stored_off) 1280 800"
  have b: "?b = page_off" by (simp only: page_off_def)
  have p: "pendingY (step (Message (FOCUS_RULER_TOGGLE (Bool True)
      (Some \<lparr>height = Num 40, opacity = Num 0.75\<rparr>))) (step (Resize 1280 600) ?b)) = None"
    unfolding b
    by (simp add: snd_onMessage enable_keeps page_off_facts onResize_def setVar_def Let_def)
  have n: "no_commit ?es ?b"
    unfolding no_commit.simps using p by (simp add: commits_def del: step.simps)
  have e: "isEnabled (run ?es ?b)"
    unfolding b
    by (simp add: page_off_eq initial_world_def snd_onMessage enable_disabled
          animation_frame_def loop_def requestAnimationFrame_def)
  from initial_cursor [OF n] n e show ?thesis by simp
qed

text \<open>
  C10: \<open>disable\<close> keeps both \<open>pendingY\<close> and \<open>currentY\<close>. A sample \<open>y\<close> pending when the
  ruler is disabled is still pending after any pointer events and frames of the disabled
  period; the next \<open>enable\<close> builds the surface at the old \<open>currentY\<close>, and the first frame
  after it commits \<open>y\<close> to \<open>currentY\<close> and to the surface.
\<close>

theorem stale_sample_committed:
  assumes "ruler_inv w" and "isEnabled w" and "pendingY w = Some y"
    and "list_all pointer_or_frame es"
  shows
  "pendingY (disable w) = Some y \<and>
   currentY (disable w) = currentY w \<and>
   pendingY (run es (disable w)) = Some y \<and>
   currentY (run es (disable w)) = currentY w \<and>
   currentY (enable st (run es (disable w))) = currentY w \<and>
   surface_var ''--ruler-y'' (enable st (run es (disable w))) = Some (Px (Num (currentY w))) \<and>
   currentY (step AnimationFrame (enable st (run es (disable w)))) = y \<and>
   pendingY (step AnimationFrame (enable st (run es (disable w)))) = None \<and>
   surface_var ''--ruler-y'' (step AnimationFrame (enable st (run es (disable w)))) =
     Some (Px (Num y)) \<and>
   surface_calls (step AnimationFrame (enable st (run es (disable w)))) =
     surface_calls (enable st (run es (disable w))) @ [(''--ruler-y'', Px (Num y))]"
proof -
  have di: "ruler_inv (disable w)" using assms(1) by (rule inv_disable)
  have dd: "\<not> isEnabled (disable w)" by (rule isEnabled_disable)
  have r: "run es (disable w) = disable w"
    using di dd assms(4) by (rule run_disabled)
  let ?e = "enable st (disable w)"
  have "host_in_document w" using assms(1,2) by (rule inv_enabledD)
  with assms(1) have "has_root w" by (auto simp: ruler_inv_def)
  then have hr: "has_root (disable w)" by (simp add: has_root_disable)
  have ei: "ruler_inv ?e" using di hr by (rule inv_enable)
  have ee: "isEnabled ?e" using dd by (rule enable_fresh)
  have ep: "pendingY ?e = Some y"
    using assms(3) by (simp add: enable_keeps disable_keeps)
  have eo: "overlay ?e = Some (fresh_overlay st (disable w))"
    using dd by (rule enable_fresh)
  show ?thesis
    unfolding r
    using assms(3) ep eo
    by (simp add: disable_keeps currentY_enable surface_var_enable_fresh [OF dd]
          animation_frame_enabled [OF ei ee] setVar_def surface_var_def surface_calls_def
          fresh_overlay_def)
qed

theorem stale_sample_committed_witness:
  "ruler_inv (step (MouseMove 120) page_on) \<and> isEnabled (step (MouseMove 120) page_on) \<and>
   pendingY (step (MouseMove 120) page_on) = Some 120 \<and>
   list_all pointer_or_frame [MouseMove 300, AnimationFrame] \<and>
   pendingY (run [MouseMove 300, AnimationFrame] (disable (step (MouseMove 120) page_on))) = Some 120 \<and>
   surface_var ''--ruler-y''
     (enable no_settings (run [MouseMove 300, AnimationFrame] (disable (step (MouseMove 120) page_on)))) =
     Some (Px (Num 400)) \<and>
   currentY (step AnimationFrame
     (enable no_settings (run [MouseMove 300, AnimationFrame] (disable (step (MouseMove 120) page_on))))) = 120 \<and>
   surface_var ''--ruler-y'' (step AnimationFrame
     (enable no_settings (run [MouseMove 300, AnimationFrame] (disable (step (MouseMove 120) page_on))))) =
     Some (Px (Num 120))"
proof -
  let ?w = "step (MouseMove 120) page_on"
  have i: "ruler_inv ?w" using page_on_inv page_on_facts(10) by (rule inv_step)
  have e: "isEnabled ?w" by (simp add: page_on_facts onMouseMove_def)
  have p: "pendingY ?w = Some 120" by (simp add: page_on_facts onMouseMove_def)
  have c: "currentY ?w = 400" by (simp add: page_on_facts onMouseMove_def)
  have l: "list_all pointer_or_frame [MouseMove 300, AnimationFrame]" by simp
  from stale_sample_committed [OF i e p l, of no_settings] i e p l c
  show ?thesis by metis
qed

end
